theory Spec2Isabelle
  imports Complex_Main
begin

section \<open>Python values used by \<open>helpers.py\<close>\<close>

text \<open>
  Exceptions are values. \<open>AssertionError\<close> carries the message of the failed
  \<open>assert\<close>; \<open>LibraryError\<close> stands for a fault raised inside pandas, geopandas,
  the SQL driver or the file system, which the module never catches.
  \<open>DanglingReference\<close> is not a Python exception: a reference to an object that is
  not in the store cannot exist in Python, and the model answers it with this value so
  that no lookup is out of range.
\<close>

datatype pyerr =
    AssertionError string
  | IndexError
  | ValueError
  | OverflowError
  | AttributeError
  | LibraryError string
  | DanglingReference

text \<open>
  A Python \<open>float\<close> is a finite value, an infinity or a NaN. Finite values are
  embedded in the reals; the only arithmetic \<open>get_omni_sources\<close> performs after its
  assertions is on multiples of one half between \<open>-30\<close> and \<open>50\<close>, where the
  floating-point product by ten and the sum with five are exact.
\<close>

datatype pyfloat = Finite real | PosInf | NegInf | NaN

fun float_le :: "pyfloat \<Rightarrow> pyfloat \<Rightarrow> bool" where
  "float_le NaN _ = False"
| "float_le _ NaN = False"
| "float_le NegInf _ = True"
| "float_le _ PosInf = True"
| "float_le (Finite a) (Finite b) = (a \<le> b)"
| "float_le PosInf _ = False"
| "float_le _ NegInf = False"

text \<open>\<open>x % y\<close> on floats with a positive finite divisor: the result has the sign of \<open>y\<close>.\<close>

fun float_mod :: "pyfloat \<Rightarrow> real \<Rightarrow> pyfloat" where
  "float_mod (Finite x) y = Finite (x - y * of_int \<lfloor>x / y\<rfloor>)"
| "float_mod _ y = NaN"

text \<open>\<open>int(x)\<close> on a float truncates towards zero; it raises on infinities and NaN.\<close>

fun int_of_float :: "pyfloat \<Rightarrow> pyerr + int" where
  "int_of_float (Finite x) = Inr (if 0 \<le> x then \<lfloor>x\<rfloor> else \<lceil>x\<rceil>)"
| "int_of_float NaN = Inl ValueError"
| "int_of_float _ = Inl OverflowError"

fun float_times :: "pyfloat \<Rightarrow> real \<Rightarrow> pyfloat" where
  "float_times (Finite x) k = Finite (x * k)"
| "float_times v k = v"

fun float_plus :: "pyfloat \<Rightarrow> real \<Rightarrow> pyfloat" where
  "float_plus (Finite x) k = Finite (x + k)"
| "float_plus v k = v"

subsection \<open>Decimal text of integers\<close>

definition digit_char :: "nat \<Rightarrow> char" where
  "digit_char d = ''0123456789'' ! (d mod 10)"

fun str_nat :: "nat \<Rightarrow> string" where
  "str_nat n = (if n < 10 then [digit_char n] else str_nat (n div 10) @ [digit_char (n mod 10)])"

declare str_nat.simps [simp del]

text \<open>\<open>str(i)\<close> for an \<open>int\<close>.\<close>

definition str_int :: "int \<Rightarrow> string" where
  "str_int i = (if i < 0 then CHR ''-'' # str_nat (nat (- i)) else str_nat (nat i))"

text \<open>
  The format specification \<open>0w\<close> of an f-string applied to an \<open>int\<close> (\<open>{i:04}\<close>,
  \<open>{i:03}\<close>): the sign, if any, comes first and zeros fill the text up to the width
  \<open>w\<close>; a longer number is not cut.
\<close>

definition format_zero :: "nat \<Rightarrow> int \<Rightarrow> string" where
  "format_zero w i =
     (if i < 0
      then CHR ''-'' # replicate (w - 1 - length (str_nat (nat (- i)))) CHR ''0'' @ str_nat (nat (- i))
      else replicate (w - length (str_nat (nat i))) CHR ''0'' @ str_nat (nat i))"

section \<open>\<open>get_omni_sources\<close>\<close>

definition backslash :: char where
  "backslash = CHR 0x5C"

text \<open>
  \<open>ACTIVE_SPACE_DIR\<close> is imported from another package; it is the parameter \<open>base\<close>
  below.
\<close>

definition omni_source_dir :: "string \<Rightarrow> string" where
  "omni_source_dir base = base @ [backslash] @ ''data'' @ [backslash] @ ''tuning''"

text \<open>The body of the \<open>for\<close> loop: one appended path, by the sign of \<open>i\<close>.\<close>

definition omni_append :: "string \<Rightarrow> int \<Rightarrow> string list \<Rightarrow> string list" where
  "omni_append dir i omni_sources =
     (if i < 0 then omni_sources @ [dir @ [backslash] @ ''O_'' @ format_zero 4 i @ ''.src'']
      else if i \<ge> 0 then omni_sources @ [dir @ [backslash] @ ''O_+'' @ format_zero 3 i @ ''.src'']
      else omni_sources)"

text \<open>\<open>for i in range(start, stop, 5)\<close>, with the list built so far.\<close>

function omni_loop :: "string \<Rightarrow> int \<Rightarrow> int \<Rightarrow> string list \<Rightarrow> string list" where
  "omni_loop dir i stop omni_sources =
     (if i < stop then omni_loop dir (i + 5) stop (omni_append dir i omni_sources)
      else omni_sources)"
  by pat_completeness auto
termination
  by (relation "measure (\<lambda>(dir, i, stop, acc). nat (stop - i))") auto

declare omni_loop.simps [simp del]

definition bounds_msg :: string where
  "bounds_msg = ''Bounds must be ordered and between [-30, 50].''"

definition upper_msg :: string where
  "upper_msg = ''Invalid upper limit. Value must be divisible by 0.5.''"

definition lower_msg :: string where
  "lower_msg = ''Invalid lower limit. Value must be divisible by 0.5.''"

definition get_omni_sources :: "string \<Rightarrow> pyfloat \<Rightarrow> pyfloat \<Rightarrow> pyerr + string list" where
  "get_omni_sources base lower upper =
     (if \<not> (float_le (Finite (- 30)) upper \<and> float_le upper (Finite 50)
             \<and> float_le (Finite (- 30)) lower \<and> float_le lower (Finite 50)
             \<and> float_le lower upper)
      then Inl (AssertionError bounds_msg)
      else if float_mod upper (1 / 2) \<noteq> Finite 0 then Inl (AssertionError upper_msg)
      else if float_mod lower (1 / 2) \<noteq> Finite 0 then Inl (AssertionError lower_msg)
      else
        (case int_of_float (float_times lower 10) of
           Inl e \<Rightarrow> Inl e
         | Inr start \<Rightarrow>
            (case int_of_float (float_plus (float_times upper 10) 5) of
               Inl e \<Rightarrow> Inl e
             | Inr stop \<Rightarrow> Inr (omni_loop (omni_source_dir base) start stop []))))"

text \<open>
  The naming convention in the words of the specification: a sign, \<open>+\<close> for a
  non-negative value, and the magnitude of the gain in tenths as three digits.
\<close>

definition gain_code :: "int \<Rightarrow> string" where
  "gain_code t =
     (if 0 \<le> t then CHR ''+'' else CHR ''-'') #
     [digit_char (nat \<bar>t\<bar> div 100), digit_char (nat \<bar>t\<bar> div 10), digit_char (nat \<bar>t\<bar>)]"

definition omni_path_spec :: "string \<Rightarrow> int \<Rightarrow> string" where
  "omni_path_spec base t =
     base @ [backslash] @ ''data'' @ [backslash] @ ''tuning'' @ [backslash] @ ''O_''
       @ gain_code t @ ''.src''"

text \<open>The values \<open>range(start, stop, 5)\<close> runs through.\<close>

definition step_range :: "int \<Rightarrow> int \<Rightarrow> int list" where
  "step_range start stop = map (\<lambda>k. start + 5 * int k) [0..<nat ((stop - start + 4) div 5)]"

text \<open>
  The bounds the specification calls valid: both finite, between \<open>-30\<close> and \<open>50\<close>,
  ordered, and multiples of one half.
\<close>

definition valid_gain_bounds :: "pyfloat \<Rightarrow> pyfloat \<Rightarrow> bool" where
  "valid_gain_bounds lower upper =
     (case (lower, upper) of
        (Finite l, Finite u) \<Rightarrow>
          - 30 \<le> l \<and> l \<le> u \<and> u \<le> 50 \<and> of_int \<lfloor>2 * l\<rfloor> = 2 * l \<and> of_int \<lfloor>2 * u\<rfloor> = 2 * u
      | _ \<Rightarrow> False)"

section \<open>\<open>get_deployment\<close>\<close>

text \<open>
  A value of the \<open>code\<close> column as \<open>read_csv\<close> delivers it: a column of digits only is
  parsed as integers (so that \<open>009\<close> arrives as \<open>9\<close>), any other column keeps its text.
\<close>

datatype cell = IntCell int | StrCell string

text \<open>\<open>astype('str')\<close> and \<open>str(s)\<close> on such a value.\<close>

fun str_cell :: "cell \<Rightarrow> string" where
  "str_cell (IntCell i) = str_int i"
| "str_cell (StrCell s) = s"

text \<open>\<open>str.zfill(width)\<close>: zeros are put after a leading sign.\<close>

definition zfill :: "nat \<Rightarrow> string \<Rightarrow> string" where
  "zfill width s =
     (if width \<le> length s then s
      else (case s of
              [] \<Rightarrow> replicate width CHR ''0''
            | c # cs \<Rightarrow>
                if c = CHR ''+'' \<or> c = CHR ''-''
                then c # replicate (width - length s) CHR ''0'' @ cs
                else replicate (width - length s) CHR ''0'' @ s))"

text \<open>
  A row of the metadata file. The file may have further columns; they are the
  extension of the record.
\<close>

record deployment_row =
  unit :: string
  code :: cell
  year :: int
  lat :: real
  long :: real
  elevation :: real
  microphone_height :: real

text \<open>The arguments the constructor of \<open>Microphone\<close> receives.\<close>

record Microphone =
  mic_lat :: real
  mic_lon :: real
  mic_z :: real
  mic_name :: string

text \<open>
  Line 54: every code whose text has at most three characters is replaced by its text,
  zero-filled to three characters. Where the column held integers, the assignment of
  strings is taken to widen it, as pandas does up to version 2.
\<close>

definition normalize_code :: "'a deployment_row_scheme \<Rightarrow> 'a deployment_row_scheme" where
  "normalize_code r =
     (if length (str_cell (code r)) \<le> 3 then r\<lparr>code := StrCell (zfill 3 (str_cell (code r)))\<rparr>
      else r)"

text \<open>
  \<open>read_csv\<close> is the file system: it gives the rows of the file of that name, or the
  fault pandas raises. \<open>print\<close> is not modelled. A row is compared with the \<open>site\<close>
  argument as it was passed; an integer never equals a string.
\<close>

definition get_deployment ::
  "(string \<Rightarrow> pyerr + 'a deployment_row_scheme list) \<Rightarrow> string \<Rightarrow> string \<Rightarrow> int \<Rightarrow> string \<Rightarrow> bool
     \<Rightarrow> pyerr + Microphone" where
  "get_deployment read_csv unit' site year' filename elevation' =
     (case read_csv filename of
        Inl e \<Rightarrow> Inl e
      | Inr rows \<Rightarrow>
          (let metadata = map normalize_code rows;
               site_meta = filter (\<lambda>r. unit r = unit' \<and> code r = StrCell site \<and> year r = year') metadata
           in case site_meta of
                [] \<Rightarrow> Inl IndexError
              | r # _ \<Rightarrow>
                  Inr \<lparr>mic_lat = lat r, mic_lon = long r,
                       mic_z = (if elevation' then elevation r else microphone_height r),
                       mic_name = unit' @ site @ str_int year'\<rparr>))"

text \<open>
  A row matches the unit, the normalized site code and the year, in the words of the
  specification.
\<close>

definition row_matches :: "string \<Rightarrow> string \<Rightarrow> int \<Rightarrow> 'a deployment_row_scheme \<Rightarrow> bool" where
  "row_matches unit' site year' r =
     (unit r = unit' \<and> year r = year' \<and>
      (if length (str_cell (code r)) \<le> 3 then zfill 3 (str_cell (code r)) = site
       else code r = StrCell site))"

definition mic_of :: "'a deployment_row_scheme \<Rightarrow> string \<Rightarrow> bool \<Rightarrow> Microphone" where
  "mic_of r name elevation' =
     \<lparr>mic_lat = lat r, mic_lon = long r,
      mic_z = (if elevation' then elevation r else microphone_height r), mic_name = name\<rparr>"

text \<open>Two metadata files used as examples; their \<open>code\<close> column holds text.\<close>

definition row_9 :: deployment_row where
  "row_9 = \<lparr>unit = ''DENA'', code = StrCell ''9'', year = 2019, lat = 63, long = - 150,
            elevation = 600, microphone_height = 3 / 2\<rparr>"

definition row_9_again :: deployment_row where
  "row_9_again = \<lparr>unit = ''DENA'', code = StrCell ''009'', year = 2019, lat = 64, long = - 151,
            elevation = 700, microphone_height = 2\<rparr>"

definition row_TRLA :: deployment_row where
  "row_TRLA = \<lparr>unit = ''DENA'', code = StrCell ''TRLA'', year = 2019, lat = 62, long = - 149,
            elevation = 500, microphone_height = 1\<rparr>"

definition one_deployment :: "string \<Rightarrow> pyerr + deployment_row list" where
  "one_deployment filename = Inr [row_TRLA, row_9]"

definition two_deployments :: "string \<Rightarrow> pyerr + deployment_row list" where
  "two_deployments filename = Inr [row_TRLA, row_9, row_9_again]"


section \<open>Text of Python integers\<close>

text \<open>
  \<open>int(s)\<close> on a string of ASCII characters: white space around the number is dropped,
  a sign may come first, underscores may stand between digits; anything else raises
  \<open>ValueError\<close>.
\<close>

definition is_space :: "char \<Rightarrow> bool" where
  "is_space c = (c \<in> set [CHR 0x20, CHR 0x09, CHR 0x0A, CHR 0x0B, CHR 0x0C, CHR 0x0D,
                           CHR 0x1C, CHR 0x1D, CHR 0x1E, CHR 0x1F])"

definition strip :: "string \<Rightarrow> string" where
  "strip s = rev (dropWhile is_space (rev (dropWhile is_space s)))"

definition digit_val :: "char \<Rightarrow> nat option" where
  "digit_val c =
     map_of [(CHR ''0'', 0), (CHR ''1'', 1), (CHR ''2'', 2), (CHR ''3'', 3), (CHR ''4'', 4),
             (CHR ''5'', 5), (CHR ''6'', 6), (CHR ''7'', 7), (CHR ''8'', 8), (CHR ''9'', 9)] c"

text \<open>The digits after the first one, with the value read so far.\<close>

fun digits_value :: "string \<Rightarrow> nat \<Rightarrow> nat option" where
  "digits_value [] acc = Some acc"
| "digits_value (c # cs) acc =
     (if c = CHR ''_''
      then (case cs of
              [] \<Rightarrow> None
            | d # ds \<Rightarrow>
                (case digit_val d of None \<Rightarrow> None | Some v \<Rightarrow> digits_value ds (10 * acc + v)))
      else (case digit_val c of None \<Rightarrow> None | Some v \<Rightarrow> digits_value cs (10 * acc + v)))"

definition unsigned_value :: "string \<Rightarrow> nat option" where
  "unsigned_value s =
     (case s of
        [] \<Rightarrow> None
      | d # ds \<Rightarrow> (case digit_val d of None \<Rightarrow> None | Some v \<Rightarrow> digits_value ds v))"

definition int_of_str :: "string \<Rightarrow> pyerr + int" where
  "int_of_str s =
     (case strip s of
        [] \<Rightarrow> Inl ValueError
      | c # cs \<Rightarrow>
          (case (if c = CHR ''-'' \<or> c = CHR ''+'' then unsigned_value cs
                 else unsigned_value (c # cs)) of
             None \<Rightarrow> Inl ValueError
           | Some n \<Rightarrow> Inr (if c = CHR ''-'' then - int n else int n)))"

section \<open>Geographic frames, the store and the libraries\<close>

text \<open>
  The coordinate reference system of a frame: none, one with an EPSG code, or one for
  which \<open>to_epsg()\<close> answers \<open>None\<close>. \<open>mask.crs.to_epsg()\<close> on a frame without a
  reference system is an attribute lookup on \<open>None\<close>.
\<close>

datatype crs_t = NoCRS | EPSG int | OtherCRS

fun to_epsg :: "crs_t \<Rightarrow> pyerr + int option" where
  "to_epsg NoCRS = Inl AttributeError"
| "to_epsg (EPSG n) = Inr (Some n)"
| "to_epsg OtherCRS = Inr None"

text \<open>
  A mask is a \<open>GeoDataFrame\<close>: a reference system, the geometry column and the other
  columns in their order. Geometries are values of a type \<open>'g\<close> of the geometry library.
\<close>

record 'g GeoDataFrame =
  crs :: crs_t
  geometry :: "'g list"
  columns :: "(string \<times> cell list) list"

text \<open>
  Python passes the mask by reference. The store holds the frames; a reference is an
  index into it, and a new frame is put at its end.
\<close>

type_synonym 'g store = "'g GeoDataFrame list"

definition alloc :: "'g store \<Rightarrow> 'g GeoDataFrame \<Rightarrow> 'g store \<times> nat" where
  "alloc s frame = (s @ [frame], length s)"

text \<open>A point of a flight track as the SQL query selects it, and a point of an ADS-B file.
  A missing \<open>TIME\<close> is \<open>None\<close>; it compares false with everything.\<close>

record ('t, 'g) flight_point =
  flight_id :: int
  altitude_m :: real
  ak_datetime :: 't
  geom :: 'g
  ak_hourtime :: 't

record ('t, 'g) adsb_point =
  TIME :: "'t option"
  adsb_geometry :: 'g

datatype adsb_kind = EarlyAdsbKind | AdsbKind

record ('t, 'g) adsb_frame =
  kind :: adsb_kind
  adsb_crs :: crs_t
  points :: "('t, 'g) adsb_point list"

text \<open>
  What the module calls in geopandas, shapely, pyproj, \<open>glob\<close>, \<open>os.path\<close> and
  \<open>nps_active_space.utils\<close>, none of which is part of the repository: the
  reprojection of one geometry from a reference system to an EPSG code, the buffer of a
  geometry, the test for emptiness, the well-known text of the dissolved mask
  (\<open>mask.dissolve(by='dissolve_field').squeeze()['geometry'].wkt\<close>), the files matching
  a pattern, the joining of two path components, the two readers of ADS-B files (each
  gives the reference system and the rows it read, or a fault), the conversion of a date
  string for the comparison with the \<open>TIME\<close> column, and \<open>gpd.clip\<close>.
\<close>

record ('t, 'g) library =
  transform :: "crs_t \<Rightarrow> int \<Rightarrow> 'g \<Rightarrow> 'g"
  buffer :: "int \<Rightarrow> 'g \<Rightarrow> 'g"
  is_empty :: "'g \<Rightarrow> bool"
  dissolve_wkt :: "'g GeoDataFrame \<Rightarrow> pyerr + string"
  glob :: "string \<Rightarrow> string list"
  path_join :: "string \<Rightarrow> string \<Rightarrow> string"
  EarlyAdsb :: "string list \<Rightarrow> pyerr + crs_t \<times> ('t, 'g) adsb_point list"
  Adsb :: "string list \<Rightarrow> pyerr + crs_t \<times> ('t, 'g) adsb_point list"
  to_timestamp :: "string \<Rightarrow> 't"
  clip :: "('t, 'g) adsb_point list \<Rightarrow> 'g GeoDataFrame \<Rightarrow> ('t, 'g) adsb_point list"

text \<open>\<open>frame.to_crs(epsg=n)\<close>: a new frame, every geometry reprojected.\<close>

definition to_crs :: "('t, 'g) library \<Rightarrow> int \<Rightarrow> 'g GeoDataFrame \<Rightarrow> 'g GeoDataFrame" where
  "to_crs lib n frame =
     frame\<lparr>crs := EPSG n, geometry := map (transform lib (crs frame) n) (geometry frame)\<rparr>"

text \<open>\<open>frame[name] = v\<close> with a scalar: the column holds \<open>v\<close> in every row; a new
  column comes last.\<close>

definition set_column :: "string \<Rightarrow> cell \<Rightarrow> 'g GeoDataFrame \<Rightarrow> 'g GeoDataFrame" where
  "set_column name v frame =
     (let col = replicate (length (geometry frame)) v in
      frame\<lparr>columns :=
        (if name \<in> fst ` set (columns frame)
         then map (\<lambda>(k, c). if k = name then (k, col) else (k, c)) (columns frame)
         else columns frame @ [(name, col)])\<rparr>)"

text \<open>\<open>ak_albers_mask.buffer(d).to_crs(epsg=4326)\<close>: the geometries of the frame in
  EPSG:3338, buffered and brought back.\<close>

definition buffer_to_wgs84 :: "('t, 'g) library \<Rightarrow> int \<Rightarrow> 'g GeoDataFrame \<Rightarrow> 'g list" where
  "buffer_to_wgs84 lib d ak_albers_mask =
     map (transform lib (EPSG 3338) 4326) (map (buffer lib d) (geometry ak_albers_mask))"

text \<open>
  Lines 97 to 99 and 157 to 159: when the distance is truthy (neither \<open>None\<close> nor
  \<open>0\<close>), the frame \<open>mask\<close> refers to is reprojected into a new frame and its own
  geometry column is assigned the buffered geometries.
\<close>

definition buffer_mask :: "('t, 'g) library \<Rightarrow> 'g store \<Rightarrow> nat \<Rightarrow> int option \<Rightarrow> 'g store" where
  "buffer_mask lib s mask' mask_buffer_distance =
     (case mask_buffer_distance of
        None \<Rightarrow> s
      | Some d \<Rightarrow>
          if d \<noteq> 0
          then (let (s', ak_albers_mask) = alloc s (to_crs lib 3338 (s ! mask')) in
                s'[mask' := (s' ! mask')\<lparr>geometry := buffer_to_wgs84 lib d (s' ! ak_albers_mask)\<rparr>])
          else s)"

text \<open>
  Lines 94 to 95 and 155 to 156: a mask that is not in EPSG:4326 is reprojected, and
  \<open>mask\<close> then refers to the new frame.
\<close>

definition wgs84_mask :: "('t, 'g) library \<Rightarrow> 'g store \<Rightarrow> nat \<Rightarrow> pyerr + 'g store \<times> nat" where
  "wgs84_mask lib s mask' =
     (case to_epsg (crs (s ! mask')) of
        Inl e \<Rightarrow> Inl e
      | Inr epsg \<Rightarrow>
          if epsg \<noteq> Some 4326 then Inr (alloc s (to_crs lib 4326 (s ! mask')))
          else Inr (s, mask'))"

section \<open>\<open>query_tracks\<close>\<close>

definition quote :: char where
  "quote = CHR 0x27"

definition newline :: char where
  "newline = CHR 0x0A"

definition date_clause :: "string \<Rightarrow> string \<Rightarrow> string" where
  "date_clause start_date end_date =
     ''fp.ak_datetime::date BETWEEN '' @ [quote] @ start_date @ [quote]
       @ '' AND '' @ [quote] @ end_date @ [quote]"

definition intersects_clause :: "string \<Rightarrow> string" where
  "intersects_clause mask_wkt =
     ''ST_Intersects(geom, ST_GeomFromText('' @ [quote] @ mask_wkt @ [quote] @ '', 4326))''"

text \<open>\<open>sep.join(xs)\<close>.\<close>

fun join :: "string \<Rightarrow> string list \<Rightarrow> string" where
  "join sep [] = []"
| "join sep [x] = x"
| "join sep (x # y # ys) = x @ sep @ join sep (y # ys)"

definition sql_query :: "string list \<Rightarrow> string" where
  "sql_query wheres =
     [newline] @
     ''        SELECT'' @ [newline] @
     ''            f.flight_id as flight_id,'' @ [newline] @
     ''            fp.altitude_ft * 0.3048 as altitude_m,'' @ [newline] @
     ''            fp.ak_datetime,'' @ [newline] @
     ''            fp.geom, '' @ [newline] @
     ''            date_trunc('' @ [quote] @ ''hour'' @ [quote] @ '', fp.ak_datetime) as ak_hourtime''
       @ [newline] @
     ''        FROM flight_points as fp'' @ [newline] @
     ''        JOIN flights f ON f.id = fp.flight_id'' @ [newline] @
     ''        WHERE '' @ join '' AND '' wheres @ [newline] @
     ''        ORDER BY fp.ak_datetime asc'' @ [newline] @
     ''        ''"

text \<open>
  Lines 116 to 119. \<open>engine\<close> is the database: it answers a query with the rows
  \<open>from_postgis\<close> builds from it, or with a fault.
\<close>

definition run_query ::
  "('t, 'g) library \<Rightarrow> (string \<Rightarrow> pyerr + ('t, 'g) flight_point list) \<Rightarrow> string list
     \<Rightarrow> pyerr + ('t, 'g) flight_point list" where
  "run_query lib engine wheres =
     (case engine (sql_query wheres) of
        Inl e \<Rightarrow> Inl e
      | Inr flight_tracks \<Rightarrow> Inr (filter (\<lambda>r. \<not> is_empty lib (geom r)) flight_tracks))"

text \<open>The call gives the store it leaves behind and the result or the exception.\<close>

definition query_tracks ::
  "('t, 'g) library \<Rightarrow> 'g store \<Rightarrow> (string \<Rightarrow> pyerr + ('t, 'g) flight_point list)
     \<Rightarrow> string \<Rightarrow> string \<Rightarrow> nat option \<Rightarrow> int option
     \<Rightarrow> 'g store \<times> (pyerr + ('t, 'g) flight_point list)" where
  "query_tracks lib s engine start_date end_date mask' mask_buffer_distance =
     (let wheres = [date_clause start_date end_date] in
      case mask' of
        None \<Rightarrow> (s, run_query lib engine wheres)
      | Some a \<Rightarrow>
          if length s \<le> a then (s, Inl DanglingReference)
          else
            (case wgs84_mask lib s a of
               Inl e \<Rightarrow> (s, Inl e)
             | Inr (s1, m) \<Rightarrow>
                 (let s2 = s1[m := set_column ''dissolve_field'' (IntCell 1) (s1 ! m)];
                      s3 = buffer_mask lib s2 m mask_buffer_distance
                  in case dissolve_wkt lib (s3 ! m) of
                       Inl e \<Rightarrow> (s3, Inl e)
                     | Inr mask_wkt \<Rightarrow>
                         (s3, run_query lib engine (wheres @ [intersects_clause mask_wkt])))))"

section \<open>\<open>query_adsb\<close>\<close>

text \<open>
  Lines 146 to 151. \<open>exclude_early_ADSB\<close> is an optional boolean; \<open>None == False\<close>
  is false.
\<close>

definition load_adsb ::
  "('t, 'g) library \<Rightarrow> string \<Rightarrow> string \<Rightarrow> bool option \<Rightarrow> pyerr + ('t, 'g) adsb_frame" where
  "load_adsb lib adsb_path start_date exclude_early_ADSB =
     (case int_of_str (take 4 start_date) of
        Inl e \<Rightarrow> Inl e
      | Inr y \<Rightarrow>
          if y \<le> 2019 \<and> exclude_early_ADSB = Some False
          then (case EarlyAdsb lib (glob lib (path_join lib adsb_path ''*.txt'')) of
                  Inl e \<Rightarrow> Inl e
                | Inr (c, rows) \<Rightarrow> Inr \<lparr>kind = EarlyAdsbKind, adsb_crs = c, points = rows\<rparr>)
          else (case Adsb lib (glob lib (path_join lib adsb_path ''*.TSV'')) of
                  Inl e \<Rightarrow> Inl e
                | Inr (c, rows) \<Rightarrow> Inr \<lparr>kind = AdsbKind, adsb_crs = c, points = rows\<rparr>))"

text \<open>Line 152: the rows whose \<open>TIME\<close> lies between the two dates.\<close>

definition in_date_range ::
  "('t::linorder, 'g) library \<Rightarrow> string \<Rightarrow> string \<Rightarrow> ('t, 'g) adsb_point \<Rightarrow> bool" where
  "in_date_range lib start_date end_date r =
     (case TIME r of
        None \<Rightarrow> False
      | Some t \<Rightarrow> t > to_timestamp lib start_date \<and> t < to_timestamp lib end_date)"

text \<open>\<open>adsb.set_crs(epsg='4326', inplace=True)\<close>: a frame that has another reference
  system is not overridden.\<close>

definition set_crs :: "int \<Rightarrow> ('t, 'g) adsb_frame \<Rightarrow> pyerr + ('t, 'g) adsb_frame" where
  "set_crs n adsb =
     (if adsb_crs adsb = NoCRS \<or> adsb_crs adsb = EPSG n then Inr (adsb\<lparr>adsb_crs := EPSG n\<rparr>)
      else Inl ValueError)"

text \<open>Line 164.\<close>

definition drop_empty :: "('t, 'g) library \<Rightarrow> ('t, 'g) adsb_frame \<Rightarrow> ('t, 'g) adsb_frame" where
  "drop_empty lib adsb = adsb\<lparr>points := filter (\<lambda>r. \<not> is_empty lib (adsb_geometry r)) (points adsb)\<rparr>"

definition query_adsb ::
  "('t::linorder, 'g) library \<Rightarrow> 'g store \<Rightarrow> string \<Rightarrow> string \<Rightarrow> string \<Rightarrow> nat option \<Rightarrow> int option
     \<Rightarrow> bool option \<Rightarrow> 'g store \<times> (pyerr + ('t, 'g) adsb_frame)" where
  "query_adsb lib s adsb_path start_date end_date mask' mask_buffer_distance exclude_early_ADSB =
     (case load_adsb lib adsb_path start_date exclude_early_ADSB of
        Inl e \<Rightarrow> (s, Inl e)
      | Inr loaded \<Rightarrow>
          (let adsb = loaded\<lparr>points := filter (in_date_range lib start_date end_date) (points loaded)\<rparr> in
           case mask' of
             None \<Rightarrow> (s, Inr (drop_empty lib adsb))
           | Some a \<Rightarrow>
               if length s \<le> a then (s, Inl DanglingReference)
               else
                 (case wgs84_mask lib s a of
                    Inl e \<Rightarrow> (s, Inl e)
                  | Inr (s1, m) \<Rightarrow>
                      (let s2 = buffer_mask lib s1 m mask_buffer_distance in
                       case set_crs 4326 adsb of
                         Inl e \<Rightarrow> (s2, Inl e)
                       | Inr adsb' \<Rightarrow>
                           (s2, Inr (drop_empty lib
                                       (adsb'\<lparr>points := clip lib (points adsb') (s2 ! m)\<rparr>)))))))"


section \<open>The effect on the mask, and a small world for examples\<close>

text \<open>
  The frame \<open>mask\<close> refers to after lines 97 to 99 or 157 to 159: with a truthy distance
  its geometries are reprojected to EPSG:3338, buffered and reprojected to EPSG:4326.
\<close>

definition buffered :: "('t, 'g) library \<Rightarrow> int option \<Rightarrow> 'g GeoDataFrame \<Rightarrow> 'g GeoDataFrame" where
  "buffered lib mask_buffer_distance frame =
     (case mask_buffer_distance of
        None \<Rightarrow> frame
      | Some d \<Rightarrow>
          if d \<noteq> 0 then frame\<lparr>geometry := buffer_to_wgs84 lib d (to_crs lib 3338 frame)\<rparr>
          else frame)"

text \<open>
  In the examples a geometry is an interval of integers, empty when its upper end is
  below its lower end; reprojection does nothing, the buffer widens an interval at both
  ends, and clipping cuts every point to the cover of the mask. A date string becomes the
  number its digits spell.
\<close>

type_synonym interval = "int \<times> int"

definition toy_timestamp :: "string \<Rightarrow> int" where
  "toy_timestamp s =
     (case int_of_str (filter (\<lambda>c. c \<noteq> CHR ''-'') s) of Inl e \<Rightarrow> 0 | Inr n \<Rightarrow> n)"

fun cover :: "interval list \<Rightarrow> interval" where
  "cover [] = (1, 0)"
| "cover [g] = g"
| "cover (g # h # gs) = (min (fst g) (fst (cover (h # gs))), max (snd g) (snd (cover (h # gs))))"

definition toy_clip ::
  "(int, interval) adsb_point list \<Rightarrow> interval GeoDataFrame \<Rightarrow> (int, interval) adsb_point list" where
  "toy_clip rows frame =
     map (\<lambda>r. r\<lparr>adsb_geometry := (max (fst (adsb_geometry r)) (fst (cover (geometry frame))),
                                 min (snd (adsb_geometry r)) (snd (cover (geometry frame))))\<rparr>) rows"

definition toy_early_rows :: "(int, interval) adsb_point list" where
  "toy_early_rows =
     [\<lparr>TIME = Some 20190601, adsb_geometry = (1, 1)\<rparr>,
      \<lparr>TIME = Some 20190615, adsb_geometry = (5, 5)\<rparr>,
      \<lparr>TIME = Some 20190620, adsb_geometry = (7, 6)\<rparr>,
      \<lparr>TIME = Some 20190625, adsb_geometry = (40, 40)\<rparr>,
      \<lparr>TIME = Some 20190630, adsb_geometry = (6, 6)\<rparr>,
      \<lparr>TIME = None, adsb_geometry = (5, 5)\<rparr>]"

definition toy_rows :: "(int, interval) adsb_point list" where
  "toy_rows = [\<lparr>TIME = Some 20200615, adsb_geometry = (5, 5)\<rparr>]"

definition toy_lib :: "(int, interval) library" where
  "toy_lib =
     \<lparr>transform = (\<lambda>c n g. g),
      buffer = (\<lambda>d g. (fst g - d, snd g + d)),
      is_empty = (\<lambda>g. snd g < fst g),
      dissolve_wkt = (\<lambda>frame. Inr ''POLYGON EMPTY''),
      glob = (\<lambda>pattern. [pattern]),
      path_join = (\<lambda>a b. a @ ''/'' @ b),
      EarlyAdsb = (\<lambda>files. if files = [''adsb/*.txt''] then Inr (NoCRS, toy_early_rows)
                            else Inl (LibraryError ''no file'')),
      Adsb = (\<lambda>files. if files = [''adsb/*.TSV''] then Inr (NoCRS, toy_rows)
                       else Inl (LibraryError ''no file'')),
      to_timestamp = toy_timestamp,
      clip = toy_clip\<rparr>"

definition toy_engine :: "string \<Rightarrow> pyerr + (int, interval) flight_point list" where
  "toy_engine query =
     Inr [\<lparr>flight_id = 1, altitude_m = 300, ak_datetime = 2019061510, geom = (5, 5),
           ak_hourtime = 2019061510\<rparr>,
          \<lparr>flight_id = 1, altitude_m = 310, ak_datetime = 2019061511, geom = (1, 0),
           ak_hourtime = 2019061511\<rparr>]"

definition toy_mask :: "interval GeoDataFrame" where
  "toy_mask = \<lparr>crs = EPSG 4326, geometry = [(0, 10)], columns = [(''name'', [StrCell ''park''])]\<rparr>"

definition toy_mask_albers :: "interval GeoDataFrame" where
  "toy_mask_albers = \<lparr>crs = EPSG 3338, geometry = [(0, 10)], columns = [(''name'', [StrCell ''park''])]\<rparr>"

section \<open>Properties of \<open>get_omni_sources\<close>\<close>

lemma replicate_numeral: "replicate (numeral k) x = x # replicate (pred_numeral k) x"
  by (simp add: numeral_eq_Suc)

lemma str_nat_3: "n < 1000 \<Longrightarrow> replicate (3 - length (str_nat n)) CHR ''0'' @ str_nat n
   = [digit_char (n div 100), digit_char (n div 10), digit_char n]"
proof -
  assume n: "n < 1000"
  have d0: "digit_char 0 = CHR ''0''" by (simp add: digit_char_def)
  have dm: "digit_char (k mod 10) = digit_char k" for k by (simp add: digit_char_def)
  consider "n < 10" | "10 \<le> n" "n < 100" | "100 \<le> n" by linarith
  then show ?thesis
  proof cases
    case 1
    then show ?thesis by (simp add: str_nat.simps[of n] d0 dm numeral_2_eq_2)
  next
    case 2
    then have "n div 10 < 10" by simp
    with 2 show ?thesis by (simp add: str_nat.simps[of n] str_nat.simps[of "n div 10"] d0 dm)
  next
    case 3
    then have a: "\<not> n div 10 < 10" by simp
    from n have b: "n div 10 div 10 < 10" by simp
    have c: "n div 10 div 10 = n div 100" by (simp add: div_mult2_eq)
    from 3 a b show ?thesis
      by (simp add: str_nat.simps[of n] str_nat.simps[of "n div 10"] str_nat.simps[of "n div 100"] c dm)
  qed
qed

lemma omni_append_spec:
  assumes "- 1000 < i" "i < 1000"
  shows "omni_append (omni_source_dir base) i acc = acc @ [omni_path_spec base i]"
proof (cases "i < 0")
  case True
  with assms have "nat (- i) < 1000" by simp
  from str_nat_3[OF this] True show ?thesis
    by (simp add: omni_append_def omni_path_spec_def omni_source_dir_def gain_code_def format_zero_def)
next
  case False
  with assms have "nat i < 1000" by simp
  from str_nat_3[OF this] False show ?thesis
    by (simp add: omni_append_def omni_path_spec_def omni_source_dir_def gain_code_def format_zero_def)
qed

lemma step_range_Nil: "\<not> i < stop \<Longrightarrow> step_range i stop = []"
  by (simp add: step_range_def)

lemma step_range_Cons: "i < stop \<Longrightarrow> step_range i stop = i # step_range (i + 5) stop"
proof -
  assume lt: "i < stop"
  define n where "n = nat ((stop - (i + 5) + 4) div 5)"
  have "(stop - i + 4) div 5 = (stop - (i + 5) + 4) div 5 + 1" by simp
  moreover from lt have "0 \<le> (stop - (i + 5) + 4) div 5" by simp
  ultimately have m: "nat ((stop - i + 4) div 5) = Suc n" by (simp add: n_def nat_add_distrib)
  have "map (\<lambda>k. i + 5 * int k) [0..<Suc n] = i # map (\<lambda>k. i + 5 + 5 * int k) [0..<n]"
    by (simp add: upt_conv_Cons map_Suc_upt[symmetric] del: upt_Suc)
  with m show ?thesis by (simp add: step_range_def n_def)
qed

lemma omni_loop_spec:
  "- 1000 < i \<Longrightarrow> stop \<le> 1000 \<Longrightarrow>
   omni_loop (omni_source_dir base) i stop acc = acc @ map (omni_path_spec base) (step_range i stop)"
proof (induction "omni_source_dir base" i stop acc rule: omni_loop.induct)
  case (1 i stop acc)
  show ?case
  proof (cases "i < stop")
    case True
    with 1 have "omni_loop (omni_source_dir base) (i + 5) stop (omni_append (omni_source_dir base) i acc)
       = omni_append (omni_source_dir base) i acc @ map (omni_path_spec base) (step_range (i + 5) stop)"
      by simp
    moreover from True 1 have "omni_append (omni_source_dir base) i acc = acc @ [omni_path_spec base i]"
      by (intro omni_append_spec) auto
    ultimately show ?thesis using True
      by (simp add: omni_loop.simps[of _ i] step_range_Cons)
  next
    case False
    then show ?thesis by (simp add: omni_loop.simps[of _ i] step_range_Nil)
  qed
qed

lemma get_omni_sources_valid:
  assumes "- 30 \<le> l" "l \<le> u" "u \<le> 50" "l = real_of_int a / 2" "u = real_of_int b / 2"
  shows "get_omni_sources base (Finite l) (Finite u)
           = Inr (map (omni_path_spec base) (map (\<lambda>k. 5 * a + 5 * int k) [0..<nat (b - a + 1)]))"
proof -
  from assms have ab: "- 60 \<le> a" "a \<le> b" "b \<le> 100" by auto
  have m: "float_mod (Finite l) (1 / 2) = Finite 0" "float_mod (Finite u) (1 / 2) = Finite 0"
    using assms(4,5) by simp_all
  have "l * 10 = real_of_int (5 * a)" using assms(4) by simp
  then have s: "int_of_float (float_times (Finite l) 10) = Inr (5 * a)"
    by (simp del: of_int_add of_int_mult)
  have "u * 10 + 5 = real_of_int (5 * b + 5)" using assms(5) by simp
  then have t: "int_of_float (float_plus (float_times (Finite u) 10) 5) = Inr (5 * b + 5)"
    by (simp del: of_int_add of_int_mult)
  have r: "step_range (5 * a) (5 * b + 5) = map (\<lambda>k. 5 * a + 5 * int k) [0..<nat (b - a + 1)]"
  proof -
    have "(5 * b + 5 - 5 * a + 4) div 5 = b - a + 1" by simp
    then show ?thesis by (simp add: step_range_def)
  qed
  from ab have "omni_loop (omni_source_dir base) (5 * a) (5 * b + 5) []
      = [] @ map (omni_path_spec base) (step_range (5 * a) (5 * b + 5))"
    by (intro omni_loop_spec) auto
  with assms(1-3) m s t r show ?thesis
    by (simp add: get_omni_sources_def)
qed


lemma get_omni_sources_invalid:
  assumes "\<not> valid_gain_bounds lower upper"
  shows "get_omni_sources base lower upper \<in> {Inl (AssertionError bounds_msg), Inl (AssertionError upper_msg), Inl (AssertionError lower_msg)}"
proof (cases lower)
  case lo: (Finite l)
  show ?thesis
  proof (cases upper)
    case up: (Finite u)
    have "float_mod (Finite u) (1 / 2) = Finite 0 \<longleftrightarrow> of_int \<lfloor>2 * u\<rfloor> = 2 * u"
      by (auto simp: mult.commute)
    moreover have "float_mod (Finite l) (1 / 2) = Finite 0 \<longleftrightarrow> of_int \<lfloor>2 * l\<rfloor> = 2 * l"
      by (auto simp: mult.commute)
    ultimately show ?thesis using assms lo up
      by (auto simp: get_omni_sources_def valid_gain_bounds_def)
  qed (simp_all add: get_omni_sources_def lo)
qed (cases upper; simp add: get_omni_sources_def)+

lemma get_omni_sources_valid_floor:
  assumes "valid_gain_bounds lower upper"
  shows "\<exists>l u. lower = Finite l \<and> upper = Finite u \<and> - 30 \<le> l \<and> l \<le> u \<and> u \<le> 50
     \<and> l = real_of_int \<lfloor>2 * l\<rfloor> / 2 \<and> u = real_of_int \<lfloor>2 * u\<rfloor> / 2"
  using assms by (cases lower; cases upper) (auto simp: valid_gain_bounds_def)

text \<open>
  Claim C2. For finite bounds \<open>l \<le> u\<close> in \<open>[-30, 50]\<close> that are multiples of one half,
  \<open>get_omni_sources\<close> returns one path per half step from \<open>l\<close> to \<open>u\<close> inclusive:
  \<open>(u - l) / 0.5 + 1\<close> paths, the \<open>k\<close>-th for the gain \<open>l + 0.5 k\<close>, so in strictly
  increasing order of gain, each path naming the gain in tenths as a sign (\<open>+\<close> when
  non-negative) and three zero-padded digits.
\<close>

theorem get_omni_sources_enumerates:
  assumes "- 30 \<le> l" "l \<le> u" "u \<le> 50" "l = real_of_int a / 2" "u = real_of_int b / 2"
  shows "\<exists>ts. get_omni_sources base (Finite l) (Finite u) = Inr (map (omni_path_spec base) ts)
     \<and> real (length ts) = (u - l) / 0.5 + 1
     \<and> sorted_wrt (<) ts
     \<and> (\<forall>k<length ts. real_of_int (ts ! k) / 10 = l + 0.5 * real k)"
proof -
  define ts where "ts = map (\<lambda>k. 5 * a + 5 * int k) [0..<nat (b - a + 1)]"
  from assms have ab: "a \<le> b" by simp
  have 1: "get_omni_sources base (Finite l) (Finite u) = Inr (map (omni_path_spec base) ts)"
    unfolding ts_def using assms by (rule get_omni_sources_valid)
  have 2: "real (length ts) = (u - l) / 0.5 + 1"
    using ab assms(4,5) by (simp add: ts_def field_simps)
  have 3: "sorted_wrt (<) ts"
    by (simp add: ts_def sorted_wrt_map sorted_wrt_upt)
  have 4: "\<forall>k<length ts. real_of_int (ts ! k) / 10 = l + 0.5 * real k"
    using assms(4) by (simp add: ts_def field_simps)
  from 1 2 3 4 show ?thesis by blast
qed

theorem get_omni_sources_enumerates_witness:
  "\<exists>ts. get_omni_sources ''C:'' (Finite (- 5)) (Finite 5) = Inr (map (omni_path_spec ''C:'') ts)
     \<and> length ts = 21 \<and> sorted_wrt (<) ts \<and> ts ! 0 = - 50 \<and> ts ! 20 = 50"
proof -
  have h: "(- 30::real) \<le> - 5" "(- 5::real) \<le> 5" "(5::real) \<le> 50"
    "(- 5::real) = real_of_int (- 10) / 2" "(5::real) = real_of_int 10 / 2" by simp_all
  from get_omni_sources_enumerates [OF h, of "''C:''"]
  obtain ts where ts: "get_omni_sources ''C:'' (Finite (- 5)) (Finite 5) = Inr (map (omni_path_spec ''C:'') ts)"
     "real (length ts) = (5 - (- 5)) / 0.5 + 1" "sorted_wrt (<) ts"
     "\<forall>k<length ts. real_of_int (ts ! k) / 10 = - 5 + 0.5 * real k"
    by blast
  from ts(2) have "real (length ts) = real 21" by simp
  then have len: "length ts = 21" by (simp only: of_nat_eq_iff)
  from ts(4) len have "real_of_int (ts ! 0) / 10 = - 5 + 0.5 * real 0" by simp
  then have "real_of_int (ts ! 0) = real_of_int (- 50)" by simp
  then have a: "ts ! 0 = - 50" by (simp only: of_int_eq_iff)
  from ts(4) len have "real_of_int (ts ! 20) / 10 = - 5 + 0.5 * real 20" by simp
  then have "real_of_int (ts ! 20) = real_of_int 50" by simp
  then have b: "ts ! 20 = 50" by (simp only: of_int_eq_iff)
  from ts(1,3) len a b show ?thesis by blast
qed

text \<open>
  Claim C3. Whenever a bound is outside \<open>[-30, 50]\<close> (or not finite), the bounds are
  misordered, or a bound is not a multiple of one half, \<open>get_omni_sources\<close> raises an
  \<open>AssertionError\<close> with a message; and on no input at all does it return an empty list.
\<close>

theorem get_omni_sources_rejects:
  "(\<not> valid_gain_bounds lower upper \<longrightarrow>
      (\<exists>msg. get_omni_sources base lower upper = Inl (AssertionError msg) \<and> msg \<noteq> []))
   \<and> get_omni_sources base lower upper \<noteq> Inr []"
proof (cases "valid_gain_bounds lower upper")
  case True
  from get_omni_sources_valid_floor[OF True] obtain l u where
    lu: "lower = Finite l" "upper = Finite u" "- 30 \<le> l" "l \<le> u" "u \<le> 50"
        "l = real_of_int \<lfloor>2 * l\<rfloor> / 2" "u = real_of_int \<lfloor>2 * u\<rfloor> / 2" by blast
  from lu(4) have "\<lfloor>2 * l\<rfloor> \<le> \<lfloor>2 * u\<rfloor>" by (intro floor_mono) simp
  with get_omni_sources_valid[OF lu(3-7), of base] lu(1,2) True show ?thesis by simp
next
  case False
  from get_omni_sources_invalid[OF False, of base] False show ?thesis
    by (auto simp: bounds_msg_def upper_msg_def lower_msg_def)
qed

theorem get_omni_sources_rejects_witness:
  "(\<not> valid_gain_bounds (Finite 0) (Finite 51)
      \<and> (\<exists>msg. get_omni_sources ''C:'' (Finite 0) (Finite 51) = Inl (AssertionError msg) \<and> msg \<noteq> []))
   \<and> (\<not> valid_gain_bounds (Finite 5) (Finite (- 5))
      \<and> (\<exists>msg. get_omni_sources ''C:'' (Finite 5) (Finite (- 5)) = Inl (AssertionError msg) \<and> msg \<noteq> []))
   \<and> (\<not> valid_gain_bounds (Finite (1 / 4)) (Finite 5)
      \<and> (\<exists>msg. get_omni_sources ''C:'' (Finite (1 / 4)) (Finite 5) = Inl (AssertionError msg) \<and> msg \<noteq> []))
   \<and> (\<not> valid_gain_bounds NaN (Finite 5)
      \<and> (\<exists>msg. get_omni_sources ''C:'' NaN (Finite 5) = Inl (AssertionError msg) \<and> msg \<noteq> []))"
proof -
  have 1: "\<not> valid_gain_bounds (Finite 0) (Finite 51)" by (simp add: valid_gain_bounds_def)
  have 2: "\<not> valid_gain_bounds (Finite 5) (Finite (- 5))" by (simp add: valid_gain_bounds_def)
  have 3: "\<not> valid_gain_bounds (Finite (1 / 4)) (Finite 5)" by (simp add: valid_gain_bounds_def)
  have 4: "\<not> valid_gain_bounds NaN (Finite 5)" by (simp add: valid_gain_bounds_def)
  from 1 2 3 4
    get_omni_sources_rejects[of "Finite 0" "Finite 51" "''C:''"]
    get_omni_sources_rejects[of "Finite 5" "Finite (- 5)" "''C:''"]
    get_omni_sources_rejects[of "Finite (1 / 4)" "Finite 5" "''C:''"]
    get_omni_sources_rejects[of NaN "Finite 5" "''C:''"]
  show ?thesis by blast
qed

text \<open>
  Claim C9. Every path \<open>get_omni_sources\<close> returns is the base install location,
  followed by \<open>\data\tuning\\<close> with the backslash of Windows as separator, and a file
  name \<open>O_\<close>, sign, three decimal digits, \<open>.src\<close>.
\<close>

theorem get_omni_sources_naming:
  assumes "get_omni_sources base lower upper = Inr ps" "p \<in> set ps"
  shows "\<exists>sgn d2 d1 d0.
           p = base @ [backslash] @ ''data'' @ [backslash] @ ''tuning'' @ [backslash] @ ''O_''
                 @ [sgn, d2, d1, d0] @ ''.src''
         \<and> (sgn = CHR ''+'' \<or> sgn = CHR ''-'')
         \<and> d2 \<in> set ''0123456789'' \<and> d1 \<in> set ''0123456789'' \<and> d0 \<in> set ''0123456789''"
proof -
  have v: "valid_gain_bounds lower upper"
  proof (rule ccontr)
    assume "\<not> valid_gain_bounds lower upper"
    from get_omni_sources_invalid[OF this, of base] assms(1) show False by auto
  qed
  from get_omni_sources_valid_floor[OF v] obtain l u where
    lu: "lower = Finite l" "upper = Finite u" "- 30 \<le> l" "l \<le> u" "u \<le> 50"
        "l = real_of_int \<lfloor>2 * l\<rfloor> / 2" "u = real_of_int \<lfloor>2 * u\<rfloor> / 2" by blast
  from get_omni_sources_valid[OF lu(3-7), of base] assms lu(1,2)
  obtain t where t: "p = omni_path_spec base t" by auto
  define sgn where "sgn = (if 0 \<le> t then CHR ''+'' else CHR ''-'')"
  have d: "digit_char d \<in> set ''0123456789''" for d
    by (simp only: digit_char_def) (rule nth_mem, simp)
  have s: "sgn = CHR ''+'' \<or> sgn = CHR ''-''" by (simp add: sgn_def)
  have "p = base @ [backslash] @ ''data'' @ [backslash] @ ''tuning'' @ [backslash] @ ''O_''
                 @ [sgn, digit_char (nat \<bar>t\<bar> div 100), digit_char (nat \<bar>t\<bar> div 10), digit_char (nat \<bar>t\<bar>)] @ ''.src''"
    by (simp add: t omni_path_spec_def gain_code_def sgn_def)
  with s d show ?thesis by blast
qed

theorem get_omni_sources_naming_witness:
  "get_omni_sources ''C:'' (Finite 0) (Finite (1 / 2))
     = Inr [''C:'' @ [backslash] @ ''data'' @ [backslash] @ ''tuning'' @ [backslash] @ ''O_+000.src'',
            ''C:'' @ [backslash] @ ''data'' @ [backslash] @ ''tuning'' @ [backslash] @ ''O_+005.src'']
   \<and> (\<exists>sgn d2 d1 d0.
         ''C:'' @ [backslash] @ ''data'' @ [backslash] @ ''tuning'' @ [backslash] @ ''O_+005.src''
           = ''C:'' @ [backslash] @ ''data'' @ [backslash] @ ''tuning'' @ [backslash] @ ''O_''
                 @ [sgn, d2, d1, d0] @ ''.src''
         \<and> (sgn = CHR ''+'' \<or> sgn = CHR ''-'')
         \<and> d2 \<in> set ''0123456789'' \<and> d1 \<in> set ''0123456789'' \<and> d0 \<in> set ''0123456789'')"
proof -
  have 1: "get_omni_sources ''C:'' (Finite 0) (Finite (1 / 2))
     = Inr [''C:'' @ [backslash] @ ''data'' @ [backslash] @ ''tuning'' @ [backslash] @ ''O_+000.src'',
            ''C:'' @ [backslash] @ ''data'' @ [backslash] @ ''tuning'' @ [backslash] @ ''O_+005.src'']"
    by (simp add: get_omni_sources_def omni_loop.simps omni_append_def format_zero_def
          str_nat.simps digit_char_def omni_source_dir_def replicate_numeral)
  have 2: "''C:'' @ [backslash] @ ''data'' @ [backslash] @ ''tuning'' @ [backslash] @ ''O_+005.src''
     \<in> set [''C:'' @ [backslash] @ ''data'' @ [backslash] @ ''tuning'' @ [backslash] @ ''O_+000.src'',
            ''C:'' @ [backslash] @ ''data'' @ [backslash] @ ''tuning'' @ [backslash] @ ''O_+005.src'']"
    by simp
  from 1 get_omni_sources_naming[OF 1 2] show ?thesis by (rule conjI)
qed

section \<open>Properties of \<open>get_deployment\<close>\<close>

lemma length_zfill: "width \<le> length (zfill width s)"
  by (cases s) (auto simp: zfill_def)

lemma normalize_code_fields [simp]:
  "unit (normalize_code r) = unit r" "year (normalize_code r) = year r"
  "lat (normalize_code r) = lat r" "long (normalize_code r) = long r"
  "elevation (normalize_code r) = elevation r"
  "microphone_height (normalize_code r) = microphone_height r"
  by (simp_all add: normalize_code_def)

lemma normalize_code_matches:
  "(unit r = u \<and> code (normalize_code r) = StrCell site \<and> year r = y) = row_matches u site y r"
  by (auto simp: normalize_code_def row_matches_def)

lemma mic_of_normalize_code [simp]: "mic_of (normalize_code r) name e = mic_of r name e"
  by (simp add: mic_of_def)

lemma get_deployment_filter:
  assumes "read_csv filename = Inr rows"
  shows "get_deployment read_csv u site y filename e =
     (case filter (row_matches u site y) rows of
        [] \<Rightarrow> Inl IndexError
      | r # _ \<Rightarrow> Inr (mic_of r (u @ site @ str_int y) e))"
proof -
  have "filter (\<lambda>r. unit r = u \<and> code r = StrCell site \<and> year r = y) (map normalize_code rows)
      = map normalize_code (filter (row_matches u site y) rows)"
    by (simp add: filter_map o_def normalize_code_matches)
  then show ?thesis using assms
    by (simp add: get_deployment_def mic_of_def split: list.split)
qed

lemma filter_first:
  assumes "\<forall>q\<in>set pre. \<not> P q" "P r"
  shows "filter P (pre @ r # post) = r # filter P post"
  using assms by (induction pre) auto

lemma short_site_never_matches: "length site < 3 \<Longrightarrow> \<not> row_matches u site y r"
  using length_zfill[of 3 "str_cell (code r)"] by (auto simp: row_matches_def)

text \<open>
  Claim C1, amended. The zero-padding is applied to the codes of the metadata file, not
  to the \<open>site\<close> argument: a row whose code has at most three characters (\<open>9\<close>, \<open>09\<close>,
  \<open>009\<close>) is selected by its code zero-padded to width three, when no earlier row
  matches; a \<open>site\<close> argument shorter than three characters selects no row, and the
  call raises \<open>IndexError\<close>.
\<close>

theorem get_deployment_pads_metadata_codes:
  assumes "read_csv filename = Inr (pre @ r # post)"
    and "\<forall>q\<in>set pre. \<not> row_matches u (zfill 3 (str_cell (code r))) y q"
    and "unit r = u" "year r = y" "length (str_cell (code r)) \<le> 3"
  shows "get_deployment read_csv u (zfill 3 (str_cell (code r))) y filename e
           = Inr (mic_of r (u @ zfill 3 (str_cell (code r)) @ str_int y) e)
       \<and> (length site < 3 \<longrightarrow> get_deployment read_csv u site y filename e = Inl IndexError)"
proof
  have "row_matches u (zfill 3 (str_cell (code r))) y r"
    using assms(3-5) by (simp add: row_matches_def)
  with assms(2) have "filter (row_matches u (zfill 3 (str_cell (code r))) y) (pre @ r # post)
      = r # filter (row_matches u (zfill 3 (str_cell (code r))) y) post"
    by (rule filter_first)
  then show "get_deployment read_csv u (zfill 3 (str_cell (code r))) y filename e
           = Inr (mic_of r (u @ zfill 3 (str_cell (code r)) @ str_int y) e)"
    by (simp add: get_deployment_filter[of read_csv filename "pre @ r # post", OF assms(1)])
next
  show "length site < 3 \<longrightarrow> get_deployment read_csv u site y filename e = Inl IndexError"
  proof
    assume "length site < 3"
    then have "filter (row_matches u site y) (pre @ r # post) = []"
      by (simp only: filter_empty_conv short_site_never_matches not_False_eq_True ball_triv simp_thms)
    then show "get_deployment read_csv u site y filename e = Inl IndexError"
      by (simp add: get_deployment_filter[of read_csv filename "pre @ r # post", OF assms(1)])
  qed
qed

lemmas dep_eval = replicate_numeral one_deployment_def two_deployments_def row_9_def row_9_again_def row_TRLA_def
  row_matches_def zfill_def str_int_def str_nat.simps digit_char_def mic_of_def
  get_deployment_def normalize_code_def

theorem get_deployment_pads_metadata_codes_witness:
  "get_deployment one_deployment ''DENA'' ''009'' 2019 ''metadata.txt'' True
     = Inr \<lparr>mic_lat = 63, mic_lon = - 150, mic_z = 600, mic_name = ''DENA0092019''\<rparr>
   \<and> get_deployment one_deployment ''DENA'' ''09'' 2019 ''metadata.txt'' True = Inl IndexError"
proof -
  have 1: "one_deployment ''metadata.txt'' = Inr ([row_TRLA] @ row_9 # [])"
    by (simp add: one_deployment_def)
  have 2: "\<forall>q\<in>set [row_TRLA]. \<not> row_matches ''DENA'' (zfill 3 (str_cell (code row_9))) 2019 q"
    by (simp add: dep_eval)
  have 3: "unit row_9 = ''DENA''" "year row_9 = 2019" "length (str_cell (code row_9)) \<le> 3"
    by (simp_all add: dep_eval)
  have 4: "length ''09'' < 3" by simp
  from get_deployment_pads_metadata_codes[of one_deployment "''metadata.txt''" "[row_TRLA]" row_9 "[]" "''DENA''" 2019 True "''09''", OF 1 2 3] 4
  show ?thesis by (simp add: dep_eval)
qed

theorem get_deployment_unpadded_site_counterexample:
  "get_deployment one_deployment ''DENA'' ''9'' 2019 ''metadata.txt'' True = Inl IndexError
   \<and> get_deployment one_deployment ''DENA'' ''009'' 2019 ''metadata.txt'' True
       = Inr \<lparr>mic_lat = 63, mic_lon = - 150, mic_z = 600, mic_name = ''DENA0092019''\<rparr>"
  by (simp add: dep_eval)

text \<open>
  Claim C7, amended. \<open>get_deployment\<close> raises \<open>IndexError\<close> when no row of the metadata
  matches the unit, the normalized site code and the year. When one row or several
  match, it returns the values of the first matching row in file order: latitude,
  longitude, elevation or microphone height by the flag, and the name unit+site+year.
\<close>

theorem get_deployment_selects_first:
  assumes "read_csv filename = Inr rows"
  shows "((\<forall>q\<in>set rows. \<not> row_matches u site y q)
            \<longrightarrow> get_deployment read_csv u site y filename e = Inl IndexError)
       \<and> (\<forall>pre r post. rows = pre @ r # post \<and> (\<forall>q\<in>set pre. \<not> row_matches u site y q)
                \<and> row_matches u site y r
            \<longrightarrow> get_deployment read_csv u site y filename e
                  = Inr (mic_of r (u @ site @ str_int y) e))"
proof (intro conjI allI impI)
  assume "\<forall>q\<in>set rows. \<not> row_matches u site y q"
  then have "filter (row_matches u site y) rows = []" by (simp add: filter_empty_conv)
  then show "get_deployment read_csv u site y filename e = Inl IndexError"
    by (simp add: get_deployment_filter[of read_csv filename rows, OF assms])
next
  fix pre r post
  assume a: "rows = pre @ r # post \<and> (\<forall>q\<in>set pre. \<not> row_matches u site y q) \<and> row_matches u site y r"
  then have "filter (row_matches u site y) rows = r # filter (row_matches u site y) post"
    by (simp add: filter_first)
  then show "get_deployment read_csv u site y filename e = Inr (mic_of r (u @ site @ str_int y) e)"
    by (simp add: get_deployment_filter[of read_csv filename rows, OF assms])
qed

theorem get_deployment_selects_first_witness:
  "get_deployment two_deployments ''DENA'' ''TRLA'' 2019 ''metadata.txt'' False
      = Inr \<lparr>mic_lat = 62, mic_lon = - 149, mic_z = 1, mic_name = ''DENATRLA2019''\<rparr>
   \<and> get_deployment two_deployments ''DENA'' ''TRLA'' 2018 ''metadata.txt'' False = Inl IndexError"
proof -
  have 1: "two_deployments ''metadata.txt'' = Inr [row_TRLA, row_9, row_9_again]"
    by (simp add: two_deployments_def)
  have 2: "\<forall>q\<in>set [row_TRLA, row_9, row_9_again]. \<not> row_matches ''DENA'' ''TRLA'' 2018 q"
    by (simp add: dep_eval)
  have 3: "[row_TRLA, row_9, row_9_again] = [] @ row_TRLA # [row_9, row_9_again]
       \<and> (\<forall>q\<in>set []. \<not> row_matches ''DENA'' ''TRLA'' 2019 q) \<and> row_matches ''DENA'' ''TRLA'' 2019 row_TRLA"
    by (simp add: dep_eval)
  from get_deployment_selects_first[of two_deployments "''metadata.txt''" _ "''DENA''" "''TRLA''" 2018 False, OF 1] 2
  have a: "get_deployment two_deployments ''DENA'' ''TRLA'' 2018 ''metadata.txt'' False = Inl IndexError"
    by blast
  from get_deployment_selects_first[of two_deployments "''metadata.txt''" _ "''DENA''" "''TRLA''" 2019 False, OF 1] 3
  have "get_deployment two_deployments ''DENA'' ''TRLA'' 2019 ''metadata.txt'' False
      = Inr (mic_of row_TRLA (''DENA'' @ ''TRLA'' @ str_int 2019) False)"
    by blast
  with a show ?thesis by (simp add: dep_eval)
qed

theorem get_deployment_two_matches_counterexample:
  "row_matches ''DENA'' ''009'' 2019 row_9 \<and> row_matches ''DENA'' ''009'' 2019 row_9_again
   \<and> row_9 \<noteq> row_9_again
   \<and> get_deployment two_deployments ''DENA'' ''009'' 2019 ''metadata.txt'' True
       = Inr \<lparr>mic_lat = 63, mic_lon = - 150, mic_z = 600, mic_name = ''DENA0092019''\<rparr>"
  by (simp add: dep_eval)


section \<open>Properties of \<open>query_tracks\<close> and \<open>query_adsb\<close>\<close>

lemmas query_eval = query_tracks_def query_adsb_def load_adsb_def run_query_def wgs84_mask_def
  buffer_mask_def alloc_def to_crs_def set_column_def buffer_to_wgs84_def set_crs_def
  drop_empty_def in_date_range_def toy_lib_def toy_engine_def toy_mask_def toy_mask_albers_def
  toy_clip_def toy_early_rows_def toy_rows_def toy_timestamp_def int_of_str_def strip_def
  is_space_def unsigned_value_def digit_val_def buffered_def Let_def

subsection \<open>Empty geometries\<close>

lemma run_query_nonempty:
  "run_query lib engine wheres = Inr rows \<Longrightarrow> r \<in> set rows \<Longrightarrow> \<not> is_empty lib (geom r)"
  by (auto simp: run_query_def split: sum.splits)

lemma query_tracks_result:
  "query_tracks lib s engine sd ed m d = (s', Inr rows) \<Longrightarrow> \<exists>wheres. run_query lib engine wheres = Inr rows"
  by (auto simp: query_tracks_def Let_def split: option.splits if_splits sum.splits prod.splits)

lemma drop_empty_nonempty:
  "r \<in> set (points (drop_empty lib adsb)) \<Longrightarrow> \<not> is_empty lib (adsb_geometry r)"
  by (simp add: drop_empty_def)

lemma drop_empty_kind [simp]: "kind (drop_empty lib adsb) = kind adsb"
  by (simp add: drop_empty_def)

lemma drop_empty_subset: "set (points (drop_empty lib adsb)) \<subseteq> set (points adsb)"
  by (auto simp: drop_empty_def)

lemma query_adsb_result:
  "query_adsb lib s p sd ed m d flag = (s', Inr f) \<Longrightarrow> \<exists>adsb. f = drop_empty lib adsb"
  by (auto simp: query_adsb_def Let_def split: option.splits if_splits sum.splits prod.splits)

text \<open>
  Claim C4. Every row of a result that \<open>query_tracks\<close> or \<open>query_adsb\<close> returns has a
  geometry that is not empty, with or without a mask: the last step of both functions
  removes the rows whose geometry \<open>is_empty\<close>.
\<close>

theorem query_results_have_nonempty_geometry:
  "(\<forall>s' rows. query_tracks lib s engine sd ed m d = (s', Inr rows)
       \<longrightarrow> (\<forall>r\<in>set rows. \<not> is_empty lib (geom r)))
   \<and> (\<forall>s' f. query_adsb lib s p sd ed m d flag = (s', Inr f)
       \<longrightarrow> (\<forall>r\<in>set (points f). \<not> is_empty lib (adsb_geometry r)))"
proof (intro conjI allI impI ballI)
  fix s' rows r
  assume "query_tracks lib s engine sd ed m d = (s', Inr rows)" and r: "r \<in> set rows"
  then obtain wheres where "run_query lib engine wheres = Inr rows"
    using query_tracks_result by blast
  then show "\<not> is_empty lib (geom r)" using r by (rule run_query_nonempty)
next
  fix s' f r
  assume "query_adsb lib s p sd ed m d flag = (s', Inr f)" and r: "r \<in> set (points f)"
  then obtain adsb where "f = drop_empty lib adsb"
    using query_adsb_result by blast
  with r show "\<not> is_empty lib (adsb_geometry r)" by (simp add: drop_empty_nonempty)
qed

theorem query_results_have_nonempty_geometry_witness:
  "query_tracks toy_lib [toy_mask] toy_engine ''2019-06-01'' ''2019-06-30'' None None
     = ([toy_mask], Inr [\<lparr>flight_id = 1, altitude_m = 300, ak_datetime = 2019061510, geom = (5, 5),
                            ak_hourtime = 2019061510\<rparr>])
   \<and> \<not> is_empty toy_lib (5, 5)
   \<and> query_adsb toy_lib [toy_mask] ''adsb'' ''2019-06-01'' ''2019-06-30'' (Some 0) None (Some False)
     = ([toy_mask], Inr \<lparr>kind = EarlyAdsbKind, adsb_crs = EPSG 4326,
                          points = [\<lparr>TIME = Some 20190615, adsb_geometry = (5, 5)\<rparr>]\<rparr>)"
proof -
  let ?pt = "\<lparr>flight_id = 1, altitude_m = 300, ak_datetime = 2019061510, geom = (5, 5),
                            ak_hourtime = 2019061510\<rparr> :: (int, interval) flight_point"
  let ?f = "\<lparr>kind = EarlyAdsbKind, adsb_crs = EPSG 4326,
                          points = [\<lparr>TIME = Some (20190615::int), adsb_geometry = (5, 5) :: interval\<rparr>]\<rparr>"
  have 1: "query_tracks toy_lib [toy_mask] toy_engine ''2019-06-01'' ''2019-06-30'' None None
     = ([toy_mask], Inr [?pt])"
    by (simp add: query_eval)
  have 2: "query_adsb toy_lib [toy_mask] ''adsb'' ''2019-06-01'' ''2019-06-30'' (Some 0) None (Some False)
     = ([toy_mask], Inr ?f)"
    by (simp add: query_eval)
  from query_results_have_nonempty_geometry[of toy_lib "[toy_mask]" toy_engine "''2019-06-01''"
      "''2019-06-30''" None None "''adsb''" "Some False"] 1
  have "\<forall>r\<in>set [?pt]. \<not> is_empty toy_lib (geom r)" by blast
  then have "\<not> is_empty toy_lib (5, 5)" by simp
  with 1 2 show ?thesis by blast
qed

subsection \<open>The file format\<close>






subsection \<open>The caller's mask\<close>


lemma buffer_mask_length: "length s \<le> length (buffer_mask lib s m d)"
  by (auto simp: buffer_mask_def alloc_def split: option.split)

lemma buffer_mask_nth:
  "m < length s \<Longrightarrow> buffer_mask lib s m d ! m = buffered lib d (s ! m)"
  by (auto simp: buffer_mask_def buffered_def alloc_def nth_append list_update_append split: option.split)

lemma buffer_mask_other:
  "k < length s \<Longrightarrow> k \<noteq> m \<Longrightarrow> buffer_mask lib s m d ! k = s ! k"
  by (auto simp: buffer_mask_def buffered_def alloc_def nth_append list_update_append split: option.split)









subsection \<open>The date range\<close>

lemma query_adsb_points:
  assumes "query_adsb lib s p sd ed m d flag = (s', Inr f)"
  shows "\<exists>g. load_adsb lib p sd flag = Inr g \<and>
           (if m = None
            then points f = filter (\<lambda>r. \<not> is_empty lib (adsb_geometry r))
                              (filter (in_date_range lib sd ed) (points g))
            else \<exists>frame. points f = filter (\<lambda>r. \<not> is_empty lib (adsb_geometry r))
                              (clip lib (filter (in_date_range lib sd ed) (points g)) frame))"
proof (cases "load_adsb lib p sd flag")
  case (Inl e)
  with assms show ?thesis by (simp add: query_adsb_def)
next
  case (Inr g)
  show ?thesis
  proof (cases m)
    case None
    with assms Inr show ?thesis by (auto simp: query_adsb_def drop_empty_def)
  next
    case (Some a)
    with assms Inr show ?thesis
      by (auto simp: query_adsb_def Let_def drop_empty_def set_crs_def
               split: if_splits sum.splits prod.splits)
  qed
qed

lemma in_date_range_iff:
  "in_date_range lib sd ed r \<longleftrightarrow> (\<exists>t. TIME r = Some t \<and> to_timestamp lib sd < t \<and> t < to_timestamp lib ed)"
  by (simp add: in_date_range_def split: option.split)

text \<open>
  Claim C8. \<open>query_adsb\<close> keeps a loaded row only if its \<open>TIME\<close> is strictly after the
  start date and strictly before the end date: provided \<open>gpd.clip\<close> gives no row a
  \<open>TIME\<close> that its input did not have, every returned row has such a \<open>TIME\<close>, so none
  equal to the start or the end date; without a mask the result is exactly the loaded
  rows in that open range with a non-empty geometry. \<open>query_tracks\<close> instead sends the
  two dates to the database in a \<open>BETWEEN\<close> condition on the date of the point.
\<close>

theorem query_adsb_date_range_exclusive:
  assumes "\<forall>rows frame. TIME ` set (clip lib rows frame) \<subseteq> TIME ` set rows"
    and "query_adsb lib s p sd ed m d flag = (s', Inr f)"
  shows "(\<forall>r\<in>set (points f). \<exists>t. TIME r = Some t \<and> to_timestamp lib sd < t \<and> t < to_timestamp lib ed)
       \<and> (\<forall>r\<in>set (points f). TIME r \<noteq> Some (to_timestamp lib sd) \<and> TIME r \<noteq> Some (to_timestamp lib ed))
       \<and> (m = None \<longrightarrow>
            (\<exists>g. load_adsb lib p sd flag = Inr g \<and>
                 points f = filter (\<lambda>r. \<not> is_empty lib (adsb_geometry r))
                              (filter (in_date_range lib sd ed) (points g))))
       \<and> query_tracks lib s engine sd ed None d =
           (s, run_query lib engine
                 [''fp.ak_datetime::date BETWEEN '' @ [quote] @ sd @ [quote]
                    @ '' AND '' @ [quote] @ ed @ [quote]])"
proof -
  from query_adsb_points[OF assms(2)] obtain g where
    g: "load_adsb lib p sd flag = Inr g"
    and pts: "if m = None
            then points f = filter (\<lambda>r. \<not> is_empty lib (adsb_geometry r))
                              (filter (in_date_range lib sd ed) (points g))
            else \<exists>frame. points f = filter (\<lambda>r. \<not> is_empty lib (adsb_geometry r))
                              (clip lib (filter (in_date_range lib sd ed) (points g)) frame)"
    by blast
  have sub: "TIME ` set (points f) \<subseteq> TIME ` set (filter (in_date_range lib sd ed) (points g))"
  proof (cases "m = None")
    case True
    with pts show ?thesis by auto
  next
    case False
    with pts obtain frame where
      "points f = filter (\<lambda>r. \<not> is_empty lib (adsb_geometry r))
                              (clip lib (filter (in_date_range lib sd ed) (points g)) frame)"
      by auto
    then have "TIME ` set (points f) \<subseteq> TIME ` set (clip lib (filter (in_date_range lib sd ed) (points g)) frame)"
      by auto
    also have "\<dots> \<subseteq> TIME ` set (filter (in_date_range lib sd ed) (points g))"
      using assms(1) by blast
    finally show ?thesis .
  qed
  have 1: "\<exists>t. TIME r = Some t \<and> to_timestamp lib sd < t \<and> t < to_timestamp lib ed"
    if "r \<in> set (points f)" for r
  proof -
    from that sub obtain q where "q \<in> set (points g)" "in_date_range lib sd ed q" "TIME q = TIME r"
      by (auto simp: image_iff subset_iff)
    then show ?thesis by (simp add: in_date_range_iff)
  qed
  have 2: "TIME r \<noteq> Some (to_timestamp lib sd) \<and> TIME r \<noteq> Some (to_timestamp lib ed)"
    if "r \<in> set (points f)" for r
    using 1[OF that] by auto
  have 3: "m = None \<longrightarrow>
            (\<exists>g. load_adsb lib p sd flag = Inr g \<and>
                 points f = filter (\<lambda>r. \<not> is_empty lib (adsb_geometry r))
                              (filter (in_date_range lib sd ed) (points g)))"
    using g pts by auto
  have 4: "query_tracks lib s engine sd ed None d =
           (s, run_query lib engine
                 [''fp.ak_datetime::date BETWEEN '' @ [quote] @ sd @ [quote]
                    @ '' AND '' @ [quote] @ ed @ [quote]])"
    by (simp add: query_tracks_def date_clause_def)
  from 1 2 3 4 show ?thesis by blast
qed

lemma toy_clip_keeps_time:
  "\<forall>rows frame. TIME ` set (clip toy_lib rows frame) \<subseteq> TIME ` set rows"
  by (auto simp: toy_lib_def toy_clip_def)

theorem query_adsb_date_range_exclusive_witness:
  "query_adsb toy_lib [] ''adsb'' ''2019-06-01'' ''2019-06-30'' None None (Some False)
     = ([], Inr \<lparr>kind = EarlyAdsbKind, adsb_crs = NoCRS,
                 points = [\<lparr>TIME = Some 20190615, adsb_geometry = (5, 5)\<rparr>,
                           \<lparr>TIME = Some 20190625, adsb_geometry = (40, 40)\<rparr>]\<rparr>)
   \<and> to_timestamp toy_lib ''2019-06-01'' = 20190601
   \<and> to_timestamp toy_lib ''2019-06-30'' = 20190630
   \<and> (\<exists>t. Some 20190615 = Some t \<and> to_timestamp toy_lib ''2019-06-01'' < t
             \<and> t < to_timestamp toy_lib ''2019-06-30'')"
proof -
  let ?f = "\<lparr>kind = EarlyAdsbKind, adsb_crs = NoCRS,
                 points = [\<lparr>TIME = Some (20190615::int), adsb_geometry = (5, 5) :: interval\<rparr>,
                           \<lparr>TIME = Some 20190625, adsb_geometry = (40, 40)\<rparr>]\<rparr>"
  have 1: "query_adsb toy_lib [] ''adsb'' ''2019-06-01'' ''2019-06-30'' None None (Some False) = ([], Inr ?f)"
    by (simp add: query_eval)
  have 2: "to_timestamp toy_lib ''2019-06-01'' = 20190601" "to_timestamp toy_lib ''2019-06-30'' = 20190630"
    by (simp_all add: query_eval)
  from query_adsb_date_range_exclusive[OF toy_clip_keeps_time 1, of toy_engine]
  have "\<forall>r\<in>set (points ?f). \<exists>t. TIME r = Some t \<and> to_timestamp toy_lib ''2019-06-01'' < t
             \<and> t < to_timestamp toy_lib ''2019-06-30''"
    by blast
  then have "\<exists>t. Some 20190615 = Some t \<and> to_timestamp toy_lib ''2019-06-01'' < t
             \<and> t < to_timestamp toy_lib ''2019-06-30''"
    by simp
  with 1 2 show ?thesis by blast
qed

subsection \<open>A buffer distance of zero\<close>

lemma buffer_mask_zero: "buffer_mask lib s m (Some 0) = buffer_mask lib s m None"
  by (simp add: buffer_mask_def)

lemma to_crs_ignores_buffer: "to_crs (lib\<lparr>buffer := b\<rparr>) n frame = to_crs lib n frame"
  by (simp add: to_crs_def)

lemma wgs84_mask_ignores_buffer: "wgs84_mask (lib\<lparr>buffer := b\<rparr>) s a = wgs84_mask lib s a"
  unfolding wgs84_mask_def to_crs_ignores_buffer by (rule refl)

lemma run_query_ignores_buffer: "run_query (lib\<lparr>buffer := b\<rparr>) engine ws = run_query lib engine ws"
  by (simp add: run_query_def split: sum.split)

lemma buffer_mask_zero_ignores_buffer:
  "buffer_mask (lib\<lparr>buffer := b\<rparr>) s m (Some 0) = buffer_mask lib s m (Some 0)"
  by (simp add: buffer_mask_def)

lemma load_adsb_ignores_buffer: "load_adsb (lib\<lparr>buffer := b\<rparr>) p sd flag = load_adsb lib p sd flag"
  by (simp add: load_adsb_def split: sum.split prod.split)

lemma in_date_range_ignores_buffer:
  "in_date_range (lib\<lparr>buffer := b\<rparr>) sd ed = in_date_range lib sd ed"
  by (rule ext) (simp add: in_date_range_def split: option.split)

lemma drop_empty_ignores_buffer: "drop_empty (lib\<lparr>buffer := b\<rparr>) adsb = drop_empty lib adsb"
  by (simp add: drop_empty_def)

lemma clip_ignores_buffer: "clip (lib\<lparr>buffer := b\<rparr>) = clip lib"
  by simp

lemma dissolve_wkt_ignores_buffer: "dissolve_wkt (lib\<lparr>buffer := b\<rparr>) = dissolve_wkt lib"
  by simp

text \<open>
  Claim C10. In \<open>query_tracks\<close> and in \<open>query_adsb\<close> a buffer distance of \<open>0\<close> gives the
  same store and the same result as no buffer distance, and the buffer operation of the
  geometry library has no influence on either.
\<close>

theorem zero_buffer_is_no_buffer:
  "query_tracks lib s engine sd ed m (Some 0) = query_tracks lib s engine sd ed m None
   \<and> query_adsb lib s p sd ed m (Some 0) flag = query_adsb lib s p sd ed m None flag
   \<and> query_tracks (lib\<lparr>buffer := b\<rparr>) s engine sd ed m (Some 0)
        = query_tracks lib s engine sd ed m (Some 0)
   \<and> query_adsb (lib\<lparr>buffer := b\<rparr>) s p sd ed m (Some 0) flag
        = query_adsb lib s p sd ed m (Some 0) flag"
proof (intro conjI)
  show "query_tracks lib s engine sd ed m (Some 0) = query_tracks lib s engine sd ed m None"
    unfolding query_tracks_def buffer_mask_zero by (rule refl)
  show "query_adsb lib s p sd ed m (Some 0) flag = query_adsb lib s p sd ed m None flag"
    unfolding query_adsb_def buffer_mask_zero by (rule refl)
  show "query_tracks (lib\<lparr>buffer := b\<rparr>) s engine sd ed m (Some 0)
        = query_tracks lib s engine sd ed m (Some 0)"
    unfolding query_tracks_def wgs84_mask_ignores_buffer run_query_ignores_buffer
      buffer_mask_zero_ignores_buffer dissolve_wkt_ignores_buffer
    by (rule refl)
  show "query_adsb (lib\<lparr>buffer := b\<rparr>) s p sd ed m (Some 0) flag
        = query_adsb lib s p sd ed m (Some 0) flag"
    unfolding query_adsb_def wgs84_mask_ignores_buffer buffer_mask_zero_ignores_buffer
      load_adsb_ignores_buffer in_date_range_ignores_buffer drop_empty_ignores_buffer
      clip_ignores_buffer
    by (rule refl)
qed

theorem zero_buffer_is_no_buffer_witness:
  "query_tracks toy_lib [toy_mask] toy_engine ''2019-06-01'' ''2019-06-30'' (Some 0) (Some 0)
     = query_tracks toy_lib [toy_mask] toy_engine ''2019-06-01'' ''2019-06-30'' (Some 0) None
   \<and> query_adsb toy_lib [toy_mask] ''adsb'' ''2019-06-01'' ''2019-06-30'' (Some 0) (Some 0) (Some False)
     = ([toy_mask], Inr \<lparr>kind = EarlyAdsbKind, adsb_crs = EPSG 4326,
                          points = [\<lparr>TIME = Some 20190615, adsb_geometry = (5, 5)\<rparr>]\<rparr>)"
proof -
  have 1: "query_adsb toy_lib [toy_mask] ''adsb'' ''2019-06-01'' ''2019-06-30'' (Some 0) None (Some False)
     = ([toy_mask], Inr \<lparr>kind = EarlyAdsbKind, adsb_crs = EPSG 4326,
                          points = [\<lparr>TIME = Some 20190615, adsb_geometry = (5, 5)\<rparr>]\<rparr>)"
    by (simp add: query_eval)
  from zero_buffer_is_no_buffer[of toy_lib "[toy_mask]" toy_engine "''2019-06-01''" "''2019-06-30''"
      "Some 0" "''adsb''" "Some False"] 1
  show ?thesis by simp
qed

end
